theory Spec2Isabelle
  imports Complex_Main "HOL-Library.Char_ord" "HOL-Library.List_Lexorder"
begin

section \<open>Night sky visualizer: data model\<close>

text \<open>
  The program is \<^verbatim>\<open>night_sky.py\<close>: \<^verbatim>\<open>read_stars\<close> loads a star catalogue from a
  CSV file through \<^verbatim>\<open>csv.DictReader\<close>, \<^verbatim>\<open>plot_sky\<close> draws the stars with matplotlib
  and saves the figure, \<^verbatim>\<open>main\<close> parses the command line and calls the two in turn.

  A Python float is a finite number, an infinity or NaN. Overflow is represented as
  the hardware and Python do it (an arithmetic result too large becomes an infinity,
  \<^verbatim>\<open>**\<close> raises OverflowError); the rounding of a finite result to 53 bits and the sign
  of zero are not. The builtin \<^verbatim>\<open>float\<close> on a string is a parameter
  \<open>fl :: string \<Rightarrow> pyfloat option\<close> of the loader (\<open>None\<close> where Python raises
  ValueError).
\<close>

subsection \<open>Values, errors, stars\<close>

text \<open>
  The values a \<^verbatim>\<open>DictReader\<close> row can hold: the text of a field, \<^verbatim>\<open>None\<close> (the default
  \<^verbatim>\<open>restval\<close>, for a field the row is too short to reach), and the list of surplus
  fields stored under the key \<^verbatim>\<open>None\<close> (the default \<^verbatim>\<open>restkey\<close>).
\<close>

datatype pyval = Str string | PyNone | StrList "string list"

datatype pyfloat = Finite real | PosInf | NegInf | NaN

text \<open>
  The exceptions the program can end with. \<open>KeyError\<close> carries the missing key,
  \<open>ValueError\<close> the text \<^verbatim>\<open>float\<close> could not convert, \<open>TypeError\<close> the type name of
  the argument \<^verbatim>\<open>float\<close> rejected, \<open>OSError\<close> (FileNotFoundError, PermissionError, ...)
  the path that could not be opened or written, \<open>MatplotlibError\<close> the class and
  message of an exception raised inside matplotlib, \<open>SystemExit\<close> the exit status and
  the text argparse printed before exiting.
\<close>

datatype error =
    KeyError string
  | ValueError string
  | TypeError string
  | OverflowError
  | OSError string
  | MatplotlibError string
  | SystemExit nat string

text \<open>
  The dataclass \<^verbatim>\<open>Star\<close>. Its \<^verbatim>\<open>name\<close> is annotated \<^verbatim>\<open>str\<close>, but a dataclass checks
  no types and \<^verbatim>\<open>read_stars\<close> stores \<^verbatim>\<open>row["name"]\<close> as it is, so the field holds
  whatever value the row dictionary has there.
\<close>

record Star =
  name :: pyval
  ra_deg :: pyfloat
  dec_deg :: pyfloat
  mag :: pyfloat

text \<open>A theme of \<^verbatim>\<open>THEMES\<close>: the dictionary with the two keys \<^verbatim>\<open>"bg"\<close> and \<^verbatim>\<open>"fg"\<close>.\<close>

record style =
  bg :: string
  fg :: string

definition THEMES :: "(string \<times> style) list" where
  "THEMES =
     [(''dark'', \<lparr>bg = ''black'', fg = ''white''\<rparr>),
      (''light'', \<lparr>bg = ''#f2f2f2'', fg = ''#111111''\<rparr>)]"

subsection \<open>Sequencing of fallible steps\<close>

definition and_then :: "error + 'a \<Rightarrow> ('a \<Rightarrow> error + 'b) \<Rightarrow> error + 'b" where
  "and_then m f = (case m of Inl e \<Rightarrow> Inl e | Inr x \<Rightarrow> f x)"

section \<open>Float arithmetic\<close>

text \<open>
  The largest double, and the least magnitude that rounds to an infinity instead of
  to it (round to nearest, ties to even).
\<close>

definition DBL_MAX :: real where
  "DBL_MAX = 2 ^ 1024 - 2 ^ 971"

definition overflow_threshold :: real where
  "overflow_threshold = 2 ^ 1024 - 2 ^ 970"

text \<open>The float an arithmetic operation returns when its exact result is \<open>x\<close>.\<close>

definition to_float :: "real \<Rightarrow> pyfloat" where
  "to_float x =
     (if overflow_threshold \<le> x then PosInf
      else if x \<le> - overflow_threshold then NegInf
      else Finite (max (- DBL_MAX) (min DBL_MAX x)))"

text \<open>\<^verbatim>\<open>x * y\<close> on floats; an infinity times zero is NaN.\<close>

fun sign_of :: "pyfloat \<Rightarrow> real" where
  "sign_of (Finite a) = sgn a"
| "sign_of PosInf = 1"
| "sign_of NegInf = - 1"
| "sign_of NaN = 0"

fun float_mul :: "pyfloat \<Rightarrow> pyfloat \<Rightarrow> pyfloat" where
  "float_mul NaN y = NaN"
| "float_mul x NaN = NaN"
| "float_mul (Finite a) (Finite b) = to_float (a * b)"
| "float_mul x y =
     (if sign_of x * sign_of y = 0 then NaN
      else if 0 < sign_of x * sign_of y then PosInf
      else NegInf)"

text \<open>\<^verbatim>\<open>x - y\<close> on floats; the difference of two equal infinities is NaN.\<close>

fun float_sub :: "pyfloat \<Rightarrow> pyfloat \<Rightarrow> pyfloat" where
  "float_sub NaN y = NaN"
| "float_sub x NaN = NaN"
| "float_sub (Finite a) (Finite b) = to_float (a - b)"
| "float_sub (Finite a) PosInf = NegInf"
| "float_sub (Finite a) NegInf = PosInf"
| "float_sub PosInf PosInf = NaN"
| "float_sub NegInf NegInf = NaN"
| "float_sub PosInf y = PosInf"
| "float_sub NegInf y = NegInf"

text \<open>\<^verbatim>\<open>x < y\<close> on floats; every comparison with NaN is false.\<close>

fun float_less :: "pyfloat \<Rightarrow> pyfloat \<Rightarrow> bool" where
  "float_less NaN y = False"
| "float_less x NaN = False"
| "float_less (Finite a) (Finite b) = (a < b)"
| "float_less (Finite a) PosInf = True"
| "float_less NegInf (Finite b) = True"
| "float_less NegInf PosInf = True"
| "float_less x y = False"

text \<open>
  \<^verbatim>\<open>max(a, b)\<close>: the builtin keeps \<open>a\<close> unless \<^verbatim>\<open>b > a\<close>. (In \<^verbatim>\<open>max(1, x)\<close> the
  first argument is the int 1, read here as the float 1.0.)
\<close>

definition py_max :: "pyfloat \<Rightarrow> pyfloat \<Rightarrow> pyfloat" where
  "py_max a b = (if float_less a b then b else a)"

text \<open>
  \<^verbatim>\<open>x ** 2\<close>: NaN and the infinities pass through without error; a finite base whose
  square is too large for a double raises OverflowError.
\<close>

definition float_pow2 :: "pyfloat \<Rightarrow> error + pyfloat" where
  "float_pow2 x =
     (case x of
        Finite a \<Rightarrow>
          (if overflow_threshold \<le> a * a then Inl OverflowError
           else Inr (Finite (min DBL_MAX (a * a))))
      | PosInf \<Rightarrow> Inr PosInf
      | NegInf \<Rightarrow> Inr PosInf
      | NaN \<Rightarrow> Inr NaN)"

section \<open>The catalogue loader\<close>

subsection \<open>\<^verbatim>\<open>csv.DictReader\<close>\<close>

text \<open>
  A row dictionary maps keys to values; the key \<open>None\<close> is Python's \<^verbatim>\<open>None\<close>
  (the \<^verbatim>\<open>restkey\<close>), \<open>Some k\<close> the field name \<open>k\<close>.
\<close>

type_synonym dictrow = "string option \<rightharpoonup> pyval"

text \<open>\<^verbatim>\<open>dict(zip(self.fieldnames, row))\<close>: later pairs overwrite earlier ones.\<close>

definition dict_zip :: "string list \<Rightarrow> string list \<Rightarrow> dictrow" where
  "dict_zip fieldnames row =
     fold (\<lambda>(k, v) d. d(Some k \<mapsto> Str v)) (zip fieldnames row) Map.empty"

text \<open>
  The dictionary \<^verbatim>\<open>DictReader.__next__\<close> builds from a non-blank row:
  \<^verbatim>\<open>
    d = dict(zip(self.fieldnames, row))
    lf = len(self.fieldnames); lr = len(row)
    if lf < lr:   d[self.restkey] = row[lf:]
    elif lf > lr:
        for key in self.fieldnames[lr:]: d[key] = self.restval
  \<close>
\<close>

definition DictReader_row :: "string list \<Rightarrow> string list \<Rightarrow> dictrow" where
  "DictReader_row fieldnames row =
     (let d = dict_zip fieldnames row;
          lf = length fieldnames;
          lr = length row
      in if lf < lr then d(None \<mapsto> StrList (drop lf row))
         else if lf > lr then fold (\<lambda>key d. d(Some key \<mapsto> PyNone)) (drop lr fieldnames) d
         else d)"

subsection \<open>\<^verbatim>\<open>read_stars\<close>\<close>

text \<open>\<^verbatim>\<open>row[key]\<close>: KeyError when the key is absent.\<close>

definition subscript :: "dictrow \<Rightarrow> string \<Rightarrow> error + pyval" where
  "subscript d key = (case d (Some key) of None \<Rightarrow> Inl (KeyError key) | Some v \<Rightarrow> Inr v)"

text \<open>
  \<^verbatim>\<open>float(v)\<close>: a string is converted or raises ValueError quoting the string; \<^verbatim>\<open>None\<close>
  and a list raise TypeError.
\<close>

definition py_float :: "(string \<Rightarrow> pyfloat option) \<Rightarrow> pyval \<Rightarrow> error + pyfloat" where
  "py_float fl v =
     (case v of
        Str s \<Rightarrow> (case fl s of None \<Rightarrow> Inl (ValueError s) | Some x \<Rightarrow> Inr x)
      | PyNone \<Rightarrow> Inl (TypeError ''NoneType'')
      | StrList _ \<Rightarrow> Inl (TypeError ''list''))"

text \<open>
  The expression \<^verbatim>\<open>Star(name=row["name"], ra_deg=float(row["ra_deg"]),
  dec_deg=float(row["dec_deg"]), mag=float(row["mag"]))\<close>, its arguments evaluated
  from left to right.
\<close>

definition make_star :: "(string \<Rightarrow> pyfloat option) \<Rightarrow> dictrow \<Rightarrow> error + Star" where
  "make_star fl row =
     and_then (subscript row ''name'') (\<lambda>n.
     and_then (and_then (subscript row ''ra_deg'') (py_float fl)) (\<lambda>ra.
     and_then (and_then (subscript row ''dec_deg'') (py_float fl)) (\<lambda>dec.
     and_then (and_then (subscript row ''mag'') (py_float fl)) (\<lambda>m.
     Inr \<lparr>name = n, ra_deg = ra, dec_deg = dec, mag = m\<rparr>))))"

text \<open>
  The loop \<^verbatim>\<open>for row in reader: stars.append(Star(...))\<close> over the rows after the
  header. \<^verbatim>\<open>DictReader\<close> skips the rows that are \<^verbatim>\<open>[]\<close> (blank lines); the first
  exception leaves the loop and the function.
\<close>

fun read_rows ::
  "(string \<Rightarrow> pyfloat option) \<Rightarrow> string list \<Rightarrow> string list list \<Rightarrow> Star list \<Rightarrow> error + Star list"
where
  "read_rows fl fieldnames [] stars = Inr stars"
| "read_rows fl fieldnames (row # rest) stars =
     (if row = [] then read_rows fl fieldnames rest stars
      else case make_star fl (DictReader_row fieldnames row) of
             Inl e \<Rightarrow> Inl e
           | Inr s \<Rightarrow> read_rows fl fieldnames rest (stars @ [s]))"

text \<open>
  The rows \<^verbatim>\<open>csv.reader\<close> yields for a file (each a list of field texts; the splitting
  of lines into fields is the csv module's). The first row is the header, whatever it
  holds; a file with no row at all gives no header and no star.
\<close>

definition load_rows :: "(string \<Rightarrow> pyfloat option) \<Rightarrow> string list list \<Rightarrow> error + Star list" where
  "load_rows fl lines =
     (case lines of
        [] \<Rightarrow> Inr []
      | fieldnames # rows \<Rightarrow> read_rows fl fieldnames rows [])"

subsection \<open>The file system, pyplot's figures and the trace of effects\<close>

text \<open>
  The effects of the program, in the order they happen: opening the catalogue for
  reading, \<^verbatim>\<open>plt.subplots\<close> registering a new figure, \<^verbatim>\<open>fig.savefig\<close> writing to a
  path, \<^verbatim>\<open>plt.close\<close> releasing a figure.
\<close>

datatype event = OpenCsv string | NewFigure nat | SaveFig nat string | CloseFigure nat

text \<open>What \<^verbatim>\<open>plot_sky\<close> puts on the axes, and what \<^verbatim>\<open>savefig\<close> writes.\<close>

record chart =
  figsize :: "nat \<times> nat"
  fig_facecolor :: string
  ax_facecolor :: string
  xaxis_inverted :: bool
  scatter_x :: "pyfloat list"
  scatter_y :: "pyfloat list"
  scatter_s :: "pyfloat list"
  scatter_c :: string
  scatter_alpha :: real
  texts :: "(pyfloat \<times> pyfloat \<times> pyval \<times> string \<times> nat) list"
  xlabel :: string
  ylabel :: string
  title :: string
  grid_color :: string
  grid_alpha :: real

record image =
  picture :: chart
  dpi :: nat
  bbox_inches :: string

text \<open>
  The world the program runs in: the CSV files that can be opened (each as the rows
  \<^verbatim>\<open>csv.reader\<close> yields), the paths an image can be written to, what matplotlib
  does with a chart it is asked to draw and encode (\<open>None\<close>: it does so; \<open>Some err\<close>:
  it raises, \<open>err\<close> being the class and message of its exception), the images
  written, the figures pyplot holds open, and the trace of effects so far. What
  matplotlib does inside is not code of this program.
\<close>

record world =
  csv_files :: "string \<rightharpoonup> string list list"
  writable :: "string \<Rightarrow> bool"
  rejects :: "chart \<Rightarrow> string option"
  images :: "string \<rightharpoonup> image"
  figures :: "nat list"
  trace :: "event list"

text \<open>
  \<^verbatim>\<open>with path.open(newline="") as handle: ...\<close>: a file that cannot be opened raises
  an OSError before any row is read.
\<close>

definition read_stars ::
  "(string \<Rightarrow> pyfloat option) \<Rightarrow> string \<Rightarrow> world \<Rightarrow> (error + Star list) \<times> world"
where
  "read_stars fl path w =
     (let w1 = w\<lparr>trace := trace w @ [OpenCsv path]\<rparr>
      in case csv_files w path of
           None \<Rightarrow> (Inl (OSError path), w1)
         | Some lines \<Rightarrow> (load_rows fl lines, w1))"

section \<open>The sky renderer\<close>

text \<open>\<^verbatim>\<open>THEMES.get(theme, THEMES["dark"])\<close>; the default is evaluated first.\<close>

definition theme_style :: "string \<Rightarrow> error + style" where
  "theme_style theme_name =
     and_then (case map_of THEMES ''dark'' of None \<Rightarrow> Inl (KeyError ''dark'') | Some d \<Rightarrow> Inr d)
       (\<lambda>dflt. Inr (case map_of THEMES theme_name of None \<Rightarrow> dflt | Some s \<Rightarrow> s))"

text \<open>\<^verbatim>\<open>max(1, 10 - s.mag * 2) ** 2\<close>\<close>

definition marker_size :: "pyfloat \<Rightarrow> error + pyfloat" where
  "marker_size m =
     float_pow2 (py_max (Finite 1) (float_sub (Finite 10) (float_mul m (Finite 2))))"

text \<open>
  \<^verbatim>\<open>sizes = [max(1, 10 - s.mag * 2) ** 2 for s in stars]\<close>: the comprehension ends
  with the first exception.
\<close>

fun marker_sizes :: "Star list \<Rightarrow> error + pyfloat list" where
  "marker_sizes [] = Inr []"
| "marker_sizes (s # rest) =
     and_then (marker_size (mag s)) (\<lambda>size.
     and_then (marker_sizes rest) (\<lambda>sizes. Inr (size # sizes)))"

text \<open>
  \<^verbatim>\<open>plt.subplots\<close> makes a new figure under the next free number (one more than the
  greatest number in use) and registers it with pyplot.
\<close>

definition subplots :: "world \<Rightarrow> nat \<times> world" where
  "subplots w =
     (let fig = Suc (fold max (figures w) 0)
      in (fig, w\<lparr>figures := figures w @ [fig], trace := trace w @ [NewFigure fig]\<rparr>))"

text \<open>
  \<^verbatim>\<open>fig.savefig(output, dpi=150, bbox_inches="tight")\<close>: matplotlib draws and encodes
  the chart, then writes the image; it raises its own exception when it rejects the
  chart, and an OSError when the path cannot be written.
\<close>

definition savefig :: "nat \<Rightarrow> chart \<Rightarrow> string \<Rightarrow> world \<Rightarrow> (error + unit) \<times> world" where
  "savefig fig c path w =
     (let w1 = w\<lparr>trace := trace w @ [SaveFig fig path]\<rparr>
      in case rejects w c of
           Some err \<Rightarrow> (Inl (MatplotlibError err), w1)
         | None \<Rightarrow>
             if writable w path
             then (Inr (), w1\<lparr>images := (images w)(path \<mapsto>
                                  \<lparr>picture = c, dpi = 150, bbox_inches = ''tight''\<rparr>)\<rparr>)
             else (Inl (OSError path), w1))"

text \<open>\<^verbatim>\<open>plt.close(fig)\<close>\<close>

definition close_figure :: "nat \<Rightarrow> world \<Rightarrow> world" where
  "close_figure fig w =
     w\<lparr>figures := removeAll fig (figures w), trace := trace w @ [CloseFigure fig]\<rparr>"

text \<open>
  The figure as it stands when \<^verbatim>\<open>savefig\<close> is called (lines 52 to 69), \<open>sizes\<close> being
  the list computed on line 58.
\<close>

definition draw :: "Star list \<Rightarrow> pyfloat list \<Rightarrow> style \<Rightarrow> bool \<Rightarrow> chart" where
  "draw stars sizes st show_labels =
     \<lparr>figsize = (10, 6),
      fig_facecolor = bg st,
      ax_facecolor = bg st,
      xaxis_inverted = True,
      scatter_x = map ra_deg stars,
      scatter_y = map dec_deg stars,
      scatter_s = sizes,
      scatter_c = fg st,
      scatter_alpha = 8 / 10,
      texts = (if show_labels
               then map (\<lambda>s. (ra_deg s, dec_deg s, name s, fg st, 8)) stars
               else []),
      xlabel = ''Right Ascension (deg)'',
      ylabel = ''Declination (deg)'',
      title = ''Night Sky'',
      grid_color = fg st,
      grid_alpha = 2 / 10\<rparr>"

text \<open>
  \<^verbatim>\<open>plot_sky\<close>: the figure is made on line 52, the sizes are computed on line 58, the
  image is saved on line 71 and the figure closed on line 72. There is no handler, so
  when the sizes or \<^verbatim>\<open>savefig\<close> raise, \<^verbatim>\<open>plt.close(fig)\<close> is not reached.
\<close>

definition plot_sky ::
  "Star list \<Rightarrow> string \<Rightarrow> bool \<Rightarrow> string \<Rightarrow> world \<Rightarrow> (error + unit) \<times> world"
where
  "plot_sky stars theme_name show_labels path w =
     (case theme_style theme_name of
        Inl e \<Rightarrow> (Inl e, w)
      | Inr st \<Rightarrow>
          (case subplots w of
             (fig, w1) \<Rightarrow>
               (case marker_sizes stars of
                  Inl e \<Rightarrow> (Inl e, w1)
                | Inr sizes \<Rightarrow>
                    (case savefig fig (draw stars sizes st show_labels) path w1 of
                       (Inl e, w2) \<Rightarrow> (Inl e, w2)
                     | (Inr u, w2) \<Rightarrow> (Inr (), close_figure fig w2)))))"

section \<open>The command interface\<close>

text \<open>The namespace \<^verbatim>\<open>parse_args\<close> returns, and its defaults.\<close>

record namespace =
  arg_data :: string
  arg_theme :: string
  arg_show_labels :: bool
  arg_output :: string

definition defaults :: namespace where
  "defaults =
     \<lparr>arg_data = ''data/stars.csv'', arg_theme = ''dark'',
      arg_show_labels = False, arg_output = ''night_sky.png''\<rparr>"

text \<open>\<^verbatim>\<open>choices=sorted(THEMES)\<close>\<close>

definition theme_choices :: "string list" where
  "theme_choices = sort (map fst THEMES)"

text \<open>
  The command line, as the sequence of items argparse makes of it, left to right: an
  option of the parser with its value, the help option argparse adds by itself, an
  option that takes a value and has none, and anything the parser does not know. How
  argparse matches the raw words to options (abbreviations, \<^verbatim>\<open>--opt=value\<close>) is not
  modelled.
\<close>

datatype cli_item =
    OptData string
  | OptTheme string
  | OptShowLabels
  | OptOutput string
  | OptHelp
  | MissingValue string
  | Unrecognized string

definition quoted :: "string \<Rightarrow> string" where
  "quoted s = [CHR 0x27] @ s @ [CHR 0x27]"

text \<open>
  \<^verbatim>\<open>parser.parse_args()\<close>: the actions run in the order of the command line. A value
  of \<^verbatim>\<open>--theme\<close> outside the choices and an option without its value end the parsing at
  once with status 2, the help option with status 0; unknown words are collected and
  reported once the line is consumed. The texts argparse prints are abbreviated.
\<close>

fun consume :: "cli_item list \<Rightarrow> namespace \<Rightarrow> string list \<Rightarrow> error + namespace" where
  "consume [] ns extras =
     (if extras = [] then Inr ns
      else Inl (SystemExit 2 (''unrecognized arguments: '' @ concat (map (\<lambda>x. x @ '' '') extras))))"
| "consume (OptData p # rest) ns extras = consume rest (ns\<lparr>arg_data := p\<rparr>) extras"
| "consume (OptTheme v # rest) ns extras =
     (if v \<in> set theme_choices then consume rest (ns\<lparr>arg_theme := v\<rparr>) extras
      else Inl (SystemExit 2 (''argument --theme: invalid choice: '' @ quoted v)))"
| "consume (OptShowLabels # rest) ns extras = consume rest (ns\<lparr>arg_show_labels := True\<rparr>) extras"
| "consume (OptOutput p # rest) ns extras = consume rest (ns\<lparr>arg_output := p\<rparr>) extras"
| "consume (OptHelp # rest) ns extras = Inl (SystemExit 0 ''usage: night_sky.py [-h] ...'')"
| "consume (MissingValue opt # rest) ns extras =
     Inl (SystemExit 2 (''argument '' @ opt @ '': expected one argument''))"
| "consume (Unrecognized x # rest) ns extras = consume rest ns (extras @ [x])"

definition parse_args :: "cli_item list \<Rightarrow> error + namespace" where
  "parse_args argv = consume argv defaults []"

definition main ::
  "(string \<Rightarrow> pyfloat option) \<Rightarrow> cli_item list \<Rightarrow> world \<Rightarrow> (error + unit) \<times> world"
where
  "main fl argv w =
     (case parse_args argv of
        Inl e \<Rightarrow> (Inl e, w)
      | Inr args \<Rightarrow>
          (case read_stars fl (arg_data args) w of
             (Inl e, w1) \<Rightarrow> (Inl e, w1)
           | (Inr stars, w1) \<Rightarrow>
               plot_sky stars (arg_theme args) (arg_show_labels args) (arg_output args) w1))"

text \<open>
  The last line of the traceback the interpreter prints for an exception nobody
  handles: the class of the exception and its message, abbreviated for \<open>OSError\<close> to
  the path (Python adds the errno text and names the subclass).
\<close>

fun traceback :: "error \<Rightarrow> string" where
  "traceback (KeyError k) = ''KeyError: '' @ quoted k"
| "traceback (ValueError s) = ''ValueError: could not convert string to float: '' @ quoted s"
| "traceback (TypeError t) =
     ''TypeError: float() argument must be a string or a real number, not '' @ quoted t"
| "traceback OverflowError =
     ''OverflowError: (34, '' @ quoted ''Numerical result out of range'' @ '')''"
| "traceback (OSError p) = ''OSError: '' @ quoted p"
| "traceback (MatplotlibError err) = err"
| "traceback (SystemExit n msg) = msg"

text \<open>
  The script run as a program (\<^verbatim>\<open>if __name__ == "__main__": main()\<close>): the exit status
  and what reaches standard error. \<^verbatim>\<open>main\<close> handles no exception, so the interpreter
  ends an exception with its traceback and status 1, and \<^verbatim>\<open>SystemExit\<close> with the status
  it carries (argparse has printed the usage error by then; help goes to standard
  output).
\<close>

record process =
  exit_status :: nat
  stderr :: string
  world_after :: world

definition run :: "(string \<Rightarrow> pyfloat option) \<Rightarrow> cli_item list \<Rightarrow> world \<Rightarrow> process" where
  "run fl argv w =
     (case main fl argv w of
        (Inr u, w') \<Rightarrow> \<lparr>exit_status = 0, stderr = [], world_after = w'\<rparr>
      | (Inl (SystemExit n msg), w') \<Rightarrow>
          \<lparr>exit_status = n, stderr = (if n = 0 then [] else msg), world_after = w'\<rparr>
      | (Inl e, w') \<Rightarrow> \<lparr>exit_status = 1, stderr = traceback e, world_after = w'\<rparr>)"

section \<open>A converter for plain decimal literals\<close>

text \<open>
  An instance of the parameter \<open>fl\<close> for concrete runs: it converts an optional sign,
  digits and an optional fraction, where it agrees with \<^verbatim>\<open>float\<close> up to rounding, and
  rejects everything else (\<^verbatim>\<open>float\<close> accepts more: exponents, blanks around the number,
  \<^verbatim>\<open>inf\<close>, \<^verbatim>\<open>nan\<close>).
\<close>

definition digit_of :: "char \<Rightarrow> nat option" where
  "digit_of = map_of
     [(CHR ''0'', 0), (CHR ''1'', 1), (CHR ''2'', 2), (CHR ''3'', 3), (CHR ''4'', 4),
      (CHR ''5'', 5), (CHR ''6'', 6), (CHR ''7'', 7), (CHR ''8'', 8), (CHR ''9'', 9)]"

fun digits_value :: "string \<Rightarrow> nat \<Rightarrow> nat option" where
  "digits_value [] acc = Some acc"
| "digits_value (c # cs) acc =
     (case digit_of c of None \<Rightarrow> None | Some d \<Rightarrow> digits_value cs (10 * acc + d))"

definition unsigned_decimal :: "string \<Rightarrow> real option" where
  "unsigned_decimal s =
     (let ip = takeWhile (\<lambda>c. c \<noteq> CHR ''.'') s;
          fp = drop (Suc (length ip)) s
      in if ip = [] \<and> fp = [] then None
         else case digits_value (ip @ fp) 0 of
                None \<Rightarrow> None
              | Some n \<Rightarrow> Some (real n / 10 ^ length fp))"

definition decimal_float :: "string \<Rightarrow> pyfloat option" where
  "decimal_float s =
     (case s of
        CHR ''-'' # r \<Rightarrow> map_option (\<lambda>x. to_float (- x)) (unsigned_decimal r)
      | CHR ''+'' # r \<Rightarrow> map_option to_float (unsigned_decimal r)
      | _ \<Rightarrow> map_option to_float (unsigned_decimal s))"

section \<open>Vocabulary for the statements about the loader\<close>

definition required_columns :: "string list" where
  "required_columns = [''name'', ''ra_deg'', ''dec_deg'', ''mag'']"

text \<open>The numeric columns, in the order \<^verbatim>\<open>read_stars\<close> converts them.\<close>

definition numeric_columns :: "string list" where
  "numeric_columns = [''ra_deg'', ''dec_deg'', ''mag'']"

text \<open>The row has a text in column \<open>key\<close> and \<^verbatim>\<open>float\<close> converts it to \<open>x\<close>.\<close>

definition field_is :: "(string \<Rightarrow> pyfloat option) \<Rightarrow> dictrow \<Rightarrow> string \<Rightarrow> pyfloat \<Rightarrow> bool" where
  "field_is fl d key x = (case d (Some key) of Some (Str s) \<Rightarrow> fl s = Some x | _ \<Rightarrow> False)"

text \<open>The row has a text in column \<open>key\<close> that \<^verbatim>\<open>float\<close> converts.\<close>

definition parseable :: "(string \<Rightarrow> pyfloat option) \<Rightarrow> dictrow \<Rightarrow> string \<Rightarrow> bool" where
  "parseable fl d key = (case d (Some key) of Some (Str s) \<Rightarrow> fl s \<noteq> None | _ \<Rightarrow> False)"

text \<open>The row has the text \<open>s\<close> in column \<open>key\<close>, and \<^verbatim>\<open>float\<close> does not convert it.\<close>

definition unparseable :: "(string \<Rightarrow> pyfloat option) \<Rightarrow> dictrow \<Rightarrow> string \<Rightarrow> string \<Rightarrow> bool" where
  "unparseable fl d key s = (d (Some key) = Some (Str s) \<and> fl s = None)"

text \<open>
  The record is what the row says: the name is the row's value in the name column,
  untouched, and each numeric field is the float of the text in its column.
\<close>

definition star_of_row :: "(string \<Rightarrow> pyfloat option) \<Rightarrow> dictrow \<Rightarrow> Star \<Rightarrow> bool" where
  "star_of_row fl d s =
     (d (Some ''name'') = Some (name s)
      \<and> field_is fl d ''ra_deg'' (ra_deg s)
      \<and> field_is fl d ''dec_deg'' (dec_deg s)
      \<and> field_is fl d ''mag'' (mag s))"

text \<open>
  The first numeric field of the row that \<^verbatim>\<open>float\<close> does not convert is the text \<open>s\<close>:
  the columns converted before it hold parseable text.
\<close>

definition reaches_unparseable :: "(string \<Rightarrow> pyfloat option) \<Rightarrow> dictrow \<Rightarrow> string \<Rightarrow> bool" where
  "reaches_unparseable fl d s =
     (unparseable fl d ''ra_deg'' s
      \<or> (parseable fl d ''ra_deg'' \<and> unparseable fl d ''dec_deg'' s)
      \<or> (parseable fl d ''ra_deg'' \<and> parseable fl d ''dec_deg'' \<and> unparseable fl d ''mag'' s))"

text \<open>
  The first numeric column the row gives no text for is reached: the columns converted
  before it hold parseable text, and it holds \<^verbatim>\<open>None\<close>.
\<close>

definition reaches_None :: "(string \<Rightarrow> pyfloat option) \<Rightarrow> dictrow \<Rightarrow> bool" where
  "reaches_None fl d =
     (d (Some ''ra_deg'') = Some PyNone
      \<or> (parseable fl d ''ra_deg'' \<and> d (Some ''dec_deg'') = Some PyNone)
      \<or> (parseable fl d ''ra_deg'' \<and> parseable fl d ''dec_deg'' \<and> d (Some ''mag'') = Some PyNone))"

text \<open>
  A world holding one CSV file, where only \<^verbatim>\<open>night_sky.png\<close> can be written and
  matplotlib draws every chart.
\<close>

definition world_with :: "string \<Rightarrow> string list list \<Rightarrow> world" where
  "world_with path lines =
     \<lparr>csv_files = [path \<mapsto> lines],
      writable = (\<lambda>p. p = ''night_sky.png''),
      rejects = (\<lambda>c. None),
      images = Map.empty,
      figures = [],
      trace = []\<rparr>"

section \<open>Properties of the float arithmetic\<close>

lemma threshold_facts:
  "DBL_MAX < overflow_threshold" "1 < DBL_MAX" "10 ^ 308 < overflow_threshold"
  "(10 + 2 * 10 ^ 153) ^ 2 \<le> DBL_MAX" "(1000::real) \<le> DBL_MAX"
  by (simp_all add: DBL_MAX_def overflow_threshold_def)

lemma to_float_in_range: "\<bar>x\<bar> \<le> DBL_MAX \<Longrightarrow> to_float x = Finite x"
  using threshold_facts(1) by (auto simp: to_float_def)

lemma to_float_small: "\<bar>x\<bar> \<le> 1000 \<Longrightarrow> to_float x = Finite x"
  using threshold_facts(5) by (intro to_float_in_range) linarith










lemma marker_size_overflow_example: "marker_size (Finite (- (10 ^ 200))) = Inl OverflowError"
  by (simp add: marker_size_def py_max_def float_pow2_def to_float_def DBL_MAX_def overflow_threshold_def)

lemma marker_size_minus_inf: "marker_size NegInf = Inr PosInf" "marker_size (Finite (- (10 ^ 308))) = Inr PosInf"
  by (simp_all add: marker_size_def py_max_def float_pow2_def to_float_def DBL_MAX_def overflow_threshold_def)



section \<open>Properties of the renderer's pure parts\<close>


lemma theme_style_dark: "theme_style ''dark'' = Inr \<lparr>bg = ''black'', fg = ''white''\<rparr>"
  by (simp add: theme_style_def THEMES_def and_then_def)

lemma theme_style_light: "theme_style ''light'' = Inr \<lparr>bg = ''#f2f2f2'', fg = ''#111111''\<rparr>"
  by (simp add: theme_style_def THEMES_def and_then_def)

lemma theme_style_unregistered:
  "map_of THEMES t = None \<Longrightarrow> theme_style t = Inr \<lparr>bg = ''black'', fg = ''white''\<rparr>"
  by (simp add: theme_style_def THEMES_def and_then_def)

lemma theme_style_total: "\<exists>st. theme_style t = Inr st"
  by (simp add: theme_style_def THEMES_def and_then_def)




text \<open>
  Claim C5. The theme \<^verbatim>\<open>"light"\<close> resolves to a background and a foreground that both
  differ from those of \<^verbatim>\<open>"dark"\<close>; every name that is not a key of \<^verbatim>\<open>THEMES\<close> resolves
  to the colours of \<^verbatim>\<open>"dark"\<close>, and \<^verbatim>\<open>plot_sky\<close> then behaves as it does for \<^verbatim>\<open>"dark"\<close>;
  the resolution raises for no name.
\<close>

theorem theme_resolution:
  "(\<exists>d l. theme_style ''dark'' = Inr d \<and> theme_style ''light'' = Inr l
          \<and> bg l \<noteq> bg d \<and> fg l \<noteq> fg d)
   \<and> (\<forall>t. t \<notin> fst ` set THEMES \<longrightarrow> theme_style t = theme_style ''dark'')
   \<and> (\<forall>t. \<exists>st. theme_style t = Inr st)
   \<and> (\<forall>t stars show_labels path w.
         t \<notin> fst ` set THEMES \<longrightarrow>
         plot_sky stars t show_labels path w = plot_sky stars ''dark'' show_labels path w)"
proof -
  have unreg: "theme_style t = theme_style ''dark''" if "t \<notin> fst ` set THEMES" for t
  proof -
    from that have "map_of THEMES t = None" by (simp add: map_of_eq_None_iff)
    then show ?thesis by (simp add: theme_style_unregistered theme_style_dark)
  qed
  have colours: "\<exists>d l. theme_style ''dark'' = Inr d \<and> theme_style ''light'' = Inr l
          \<and> bg l \<noteq> bg d \<and> fg l \<noteq> fg d"
    by (simp add: theme_style_dark theme_style_light)
  have plot: "plot_sky stars t show_labels path w = plot_sky stars ''dark'' show_labels path w"
    if "t \<notin> fst ` set THEMES" for t stars show_labels path w
    using unreg [OF that] by (simp add: plot_sky_def)
  show ?thesis using unreg colours theme_style_total plot by blast
qed

theorem theme_resolution_witness:
  "''sepia'' \<notin> fst ` set THEMES
   \<and> theme_style ''sepia'' = Inr \<lparr>bg = ''black'', fg = ''white''\<rparr>"
proof -
  have h: "''sepia'' \<notin> fst ` set THEMES" by (simp add: THEMES_def)
  from theme_resolution have "theme_style ''sepia'' = theme_style ''dark''" using h by blast
  then show ?thesis using h by (simp add: theme_style_dark)
qed

section \<open>Properties of the loader\<close>

subsection \<open>The row dictionary\<close>

lemma fold_zip_None:
  "fold (\<lambda>(k, v) d. d(Some k \<mapsto> Str v)) ps d0 None = d0 None"
  by (induction ps arbitrary: d0) auto

lemma fold_zip_absent:
  "fold (\<lambda>(k, v) d. d(Some k \<mapsto> Str v)) ps d0 (Some key) = None
     \<longleftrightarrow> d0 (Some key) = None \<and> key \<notin> fst ` set ps"
  by (induction ps arbitrary: d0) (auto split: if_splits)

lemma fold_zip_value:
  "fold (\<lambda>(k, v) d. d(Some k \<mapsto> Str v)) ps d0 (Some key) = Some v
     \<Longrightarrow> d0 (Some key) = Some v \<or> (\<exists>s. v = Str s)"
proof (induction ps arbitrary: d0)
  case Nil
  then show ?case by simp
next
  case (Cons p ps)
  obtain k x where p: "p = (k, x)" by (cases p)
  show ?case
    using Cons.prems Cons.IH [of "d0(Some k \<mapsto> Str x)"]
    by (auto simp: p split: if_splits)
qed

lemma fst_set_zip: "fst ` set (zip xs ys) = set (take (length ys) xs)"
proof (induction xs arbitrary: ys)
  case Nil
  then show ?case by simp
next
  case (Cons x xs)
  then show ?case by (cases ys) auto
qed

lemma dict_zip_None: "dict_zip fieldnames row None = None"
  by (simp add: dict_zip_def fold_zip_None)

lemma dict_zip_absent:
  "dict_zip fieldnames row (Some key) = None \<longleftrightarrow> key \<notin> set (take (length row) fieldnames)"
  by (simp add: dict_zip_def fold_zip_absent fst_set_zip)

lemma dict_zip_value: "dict_zip fieldnames row (Some key) = Some v \<Longrightarrow> \<exists>s. v = Str s"
  using fold_zip_value [of "zip fieldnames row" Map.empty key v] by (simp add: dict_zip_def)

lemma fold_restval:
  "fold (\<lambda>key d. d(Some key \<mapsto> PyNone)) ks d (Some key)
     = (if key \<in> set ks then Some PyNone else d (Some key))"
  by (induction ks arbitrary: d) auto

lemma DictReader_row_absent:
  "DictReader_row fieldnames row (Some key) = None \<longleftrightarrow> key \<notin> set fieldnames"
proof -
  have split: "set fieldnames = set (take (length row) fieldnames) \<union> set (drop (length row) fieldnames)"
    by (metis append_take_drop_id set_append)
  show ?thesis
  proof (cases "length fieldnames \<le> length row")
    case True
    then show ?thesis
      by (auto simp: DictReader_row_def Let_def dict_zip_absent)
  next
    case False
    then show ?thesis
      using split by (auto simp: DictReader_row_def Let_def fold_restval dict_zip_absent)
  qed
qed

lemma DictReader_row_value:
  "DictReader_row fieldnames row (Some key) = Some v \<Longrightarrow> v = PyNone \<or> (\<exists>s. v = Str s)"
  by (auto simp: DictReader_row_def Let_def fold_restval dest: dict_zip_value split: if_splits)

lemma DictReader_row_full:
  assumes "length fieldnames \<le> length row" and "key \<in> set fieldnames"
  shows "\<exists>s. DictReader_row fieldnames row (Some key) = Some (Str s)"
proof -
  from assms have "dict_zip fieldnames row (Some key) \<noteq> None"
    by (simp add: dict_zip_absent)
  then obtain v where v: "dict_zip fieldnames row (Some key) = Some v" by auto
  then obtain s where "v = Str s" using dict_zip_value by blast
  with v assms(1) show ?thesis by (auto simp: DictReader_row_def Let_def)
qed


subsection \<open>One row, and the loop over the rows\<close>

lemma make_star_Inr_iff:
  "make_star fl d = Inr s \<longleftrightarrow> star_of_row fl d s"
  by (cases s)
     (auto simp: make_star_def and_then_def subscript_def py_float_def star_of_row_def field_is_def
           split: option.splits pyval.splits sum.splits)

lemma make_star_parseable:
  assumes "d (Some ''name'') = Some n"
      and "\<forall>key\<in>set numeric_columns. parseable fl d key"
  shows "\<exists>s. make_star fl d = Inr s \<and> name s = n"
  using assms
  by (auto simp: make_star_def and_then_def subscript_def py_float_def parseable_def numeric_columns_def
           split: option.splits pyval.splits sum.splits)

lemma read_rows_loaded:
  assumes "\<forall>r\<in>set rows. r \<noteq> [] \<longrightarrow> (\<exists>s. make_star fl (DictReader_row fieldnames r) = Inr s)"
  shows "\<exists>stars. read_rows fl fieldnames rows acc = Inr (acc @ stars)
           \<and> list_all2 (\<lambda>r s. make_star fl (DictReader_row fieldnames r) = Inr s)
                 (filter (\<lambda>r. r \<noteq> []) rows) stars"
  using assms
proof (induction rows arbitrary: acc)
  case Nil
  then show ?case by simp
next
  case (Cons r rows)
  from Cons.prems
  have tail: "\<forall>r\<in>set rows. r \<noteq> [] \<longrightarrow> (\<exists>s. make_star fl (DictReader_row fieldnames r) = Inr s)"
    by simp
  show ?case
  proof (cases "r = []")
    case True
    with Cons.IH [OF tail, of acc] show ?thesis by simp
  next
    case False
    with Cons.prems obtain s where s: "make_star fl (DictReader_row fieldnames r) = Inr s"
      by auto
    from Cons.IH [OF tail, of "acc @ [s]"] obtain stars where
      "read_rows fl fieldnames rows (acc @ [s]) = Inr ((acc @ [s]) @ stars)"
      "list_all2 (\<lambda>r s. make_star fl (DictReader_row fieldnames r) = Inr s)
         (filter (\<lambda>r. r \<noteq> []) rows) stars"
      by blast
    then have "read_rows fl fieldnames (r # rows) acc = Inr (acc @ (s # stars))
        \<and> list_all2 (\<lambda>r s. make_star fl (DictReader_row fieldnames r) = Inr s)
            (filter (\<lambda>r. r \<noteq> []) (r # rows)) (s # stars)"
      using s False by simp
    then show ?thesis by blast
  qed
qed

lemma read_rows_first_failure:
  assumes "\<forall>p\<in>set pre. p = [] \<or> (\<exists>s. make_star fl (DictReader_row fieldnames p) = Inr s)"
      and "r \<noteq> []"
      and "make_star fl (DictReader_row fieldnames r) = Inl e"
  shows "read_rows fl fieldnames (pre @ r # post) acc = Inl e"
  using assms
proof (induction pre arbitrary: acc)
  case Nil
  then show ?case by simp
next
  case (Cons p pre)
  then show ?case by (cases "p = []") auto
qed


lemma read_rows_fails:
  "\<exists>r\<in>set rows. r \<noteq> [] \<and> (\<exists>e. make_star fl (DictReader_row fieldnames r) = Inl e)
     \<Longrightarrow> \<exists>e. read_rows fl fieldnames rows acc = Inl e"
proof (induction rows arbitrary: acc)
  case Nil
  then show ?case by simp
next
  case (Cons r rows)
  show ?case
  proof (cases "r = []")
    case True
    with Cons show ?thesis by auto
  next
    case False
    show ?thesis
    proof (cases "make_star fl (DictReader_row fieldnames r)")
      case (Inl e)
      with False show ?thesis by simp
    next
      case (Inr s)
      with Cons.prems have "\<exists>r\<in>set rows. r \<noteq> [] \<and> (\<exists>e. make_star fl (DictReader_row fieldnames r) = Inl e)"
        by auto
      from Cons.IH [OF this, of "acc @ [s]"] Inr False show ?thesis by simp
    qed
  qed
qed


subsection \<open>\<^verbatim>\<open>read_stars\<close> on a file\<close>

lemma read_stars_file:
  "csv_files w path = Some (fieldnames # rows)
     \<Longrightarrow> fst (read_stars fl path w) = read_rows fl fieldnames rows []"
  by (simp add: read_stars_def load_rows_def Let_def)

lemma read_stars_trace:
  "snd (read_stars fl path w) = w\<lparr>trace := trace w @ [OpenCsv path]\<rparr>"
  by (simp add: read_stars_def Let_def split: option.splits)

lemma blank_row_not_parseable: "\<not> parseable fl (DictReader_row fieldnames []) key"
  by (cases fieldnames)
     (auto simp: parseable_def DictReader_row_def Let_def dict_zip_def fold_restval
           split: option.splits pyval.splits)

lemmas eval_row =
  DictReader_row_def dict_zip_def Let_def make_star_def and_then_def subscript_def py_float_def

lemmas eval_float = decimal_float_def unsigned_decimal_def digit_of_def to_float_small

text \<open>
  Against claim C1 as stated: the header has the four columns and the only data row
  has parseable text in the three numeric columns, but the row is too short to reach
  the name column, which comes last; the record's name is \<^verbatim>\<open>None\<close>, not a text.
\<close>

theorem read_stars_name_counterexample:
  "set required_columns \<subseteq> set [''ra_deg'', ''dec_deg'', ''mag'', ''name'']
   \<and> parseable decimal_float
        (DictReader_row [''ra_deg'', ''dec_deg'', ''mag'', ''name''] [''1'', ''2'', ''3'']) ''ra_deg''
   \<and> parseable decimal_float
        (DictReader_row [''ra_deg'', ''dec_deg'', ''mag'', ''name''] [''1'', ''2'', ''3'']) ''dec_deg''
   \<and> parseable decimal_float
        (DictReader_row [''ra_deg'', ''dec_deg'', ''mag'', ''name''] [''1'', ''2'', ''3'']) ''mag''
   \<and> fst (read_stars decimal_float ''stars.csv''
             (world_with ''stars.csv''
                [[''ra_deg'', ''dec_deg'', ''mag'', ''name''], [''1'', ''2'', ''3'']]))
       = Inr [\<lparr>name = PyNone, ra_deg = Finite 1, dec_deg = Finite 2, mag = Finite 3\<rparr>]"
  by (simp add: required_columns_def parseable_def read_stars_def load_rows_def world_with_def
                eval_row eval_float)

text \<open>
  Claim C1, amended. For every CSV file whose header contains the columns name, ra_deg,
  dec_deg and mag and whose N data rows (the lines that are not blank, which
  \<^verbatim>\<open>DictReader\<close> skips) all have a value in the name column and text that \<^verbatim>\<open>float\<close>
  converts in the three numeric columns, \<^verbatim>\<open>read_stars\<close> returns exactly N records in
  the order of the data rows; each record's name is the text of the row's name column
  and its numeric fields are the floats of the row's texts.
\<close>

theorem read_stars_valid:
  assumes opened: "csv_files w path = Some (fieldnames # rows)"
      and header: "set required_columns \<subseteq> set fieldnames"
      and rows: "\<forall>r\<in>set rows. r \<noteq> [] \<longrightarrow>
                   (\<exists>n. DictReader_row fieldnames r (Some ''name'') = Some (Str n))
                   \<and> (\<forall>key\<in>set numeric_columns.
                         parseable fl (DictReader_row fieldnames r) key)"
  shows "\<exists>stars. fst (read_stars fl path w) = Inr stars
           \<and> length stars = length (filter (\<lambda>r. r \<noteq> []) rows)
           \<and> list_all2 (\<lambda>r s. star_of_row fl (DictReader_row fieldnames r) s
                                \<and> (\<exists>n. name s = Str n))
                 (filter (\<lambda>r. r \<noteq> []) rows) stars"
proof -
  let ?d = "DictReader_row fieldnames"
  let ?loads = "\<lambda>r s. make_star fl (?d r) = Inr s"
  let ?data = "filter (\<lambda>r. r \<noteq> []) rows"
  let ?spec = "\<lambda>r s. star_of_row fl (?d r) s \<and> (\<exists>n. name s = Str n)"
  have each: "\<forall>r\<in>set rows. r \<noteq> [] \<longrightarrow> (\<exists>s. ?loads r s)"
  proof (intro ballI impI)
    fix r assume "r \<in> set rows" and "r \<noteq> []"
    with rows obtain n where n: "?d r (Some ''name'') = Some (Str n)"
      and p: "\<forall>key\<in>set numeric_columns. parseable fl (?d r) key" by blast
    from make_star_parseable [OF n p] show "\<exists>s. ?loads r s" by blast
  qed
  from read_rows_loaded [OF each, of "[]"] obtain stars where
    res: "read_rows fl fieldnames rows [] = Inr stars" and all: "list_all2 ?loads ?data stars"
    by auto
  have "list_all2 ?spec ?data stars"
  proof (rule list.rel_mono_strong [OF all])
    fix r s assume r: "r \<in> set ?data" and l: "?loads r s"
    from r rows obtain n where n: "?d r (Some ''name'') = Some (Str n)" by auto
    from l have sr: "star_of_row fl (?d r) s" by (simp add: make_star_Inr_iff)
    then have "?d r (Some ''name'') = Some (name s)" by (simp add: star_of_row_def)
    with n have "name s = Str n" by simp
    with sr show "?spec r s" by blast
  qed
  moreover from all have "length stars = length ?data"
    by (simp add: list_all2_lengthD)
  ultimately show ?thesis using res read_stars_file [OF opened] by auto
qed

theorem read_stars_valid_witness:
  "set required_columns \<subseteq> set [''name'', ''ra_deg'', ''dec_deg'', ''mag'']
   \<and> (\<exists>stars. fst (read_stars decimal_float ''stars.csv''
                      (world_with ''stars.csv''
                         [[''name'', ''ra_deg'', ''dec_deg'', ''mag''],
                          [''Sirius'', ''101.28'', ''-16.72'', ''-1.46''],
                          [],
                          [''Vega'', ''279.23'', ''38.78'', ''0.03'']])) = Inr stars
         \<and> length stars = 2
         \<and> map name stars = [Str ''Sirius'', Str ''Vega'']
         \<and> map mag stars = [Finite (- 146 / 100), Finite (3 / 100)])"
proof -
  let ?header = "[''name'', ''ra_deg'', ''dec_deg'', ''mag'']"
  let ?r1 = "[''Sirius'', ''101.28'', ''-16.72'', ''-1.46'']"
  let ?r2 = "[''Vega'', ''279.23'', ''38.78'', ''0.03'']"
  let ?rows = "[?r1, [], ?r2]"
  let ?w = "world_with ''stars.csv'' (?header # ?rows)"
  have opened: "csv_files ?w ''stars.csv'' = Some (?header # ?rows)"
    by (simp add: world_with_def)
  have header: "set required_columns \<subseteq> set ?header"
    by (simp add: required_columns_def)
  have rows: "\<forall>r\<in>set ?rows. r \<noteq> [] \<longrightarrow>
                (\<exists>n. DictReader_row ?header r (Some ''name'') = Some (Str n))
                \<and> (\<forall>key\<in>set numeric_columns.
                      parseable decimal_float (DictReader_row ?header r) key)"
    by (simp add: numeric_columns_def parseable_def eval_row eval_float)
  from read_stars_valid [OF opened header rows] obtain stars where
    res: "fst (read_stars decimal_float ''stars.csv'' ?w) = Inr stars"
    and len: "length stars = length (filter (\<lambda>r. r \<noteq> []) ?rows)"
    and rel: "list_all2 (\<lambda>r s. star_of_row decimal_float (DictReader_row ?header r) s
                \<and> (\<exists>n. name s = Str n)) (filter (\<lambda>r. r \<noteq> []) ?rows) stars"
    by blast
  from rel obtain s1 s2 where stars: "stars = [s1, s2]"
    and s1: "star_of_row decimal_float (DictReader_row ?header ?r1) s1"
    and s2: "star_of_row decimal_float (DictReader_row ?header ?r2) s2"
    by (auto simp: list_all2_Cons1)
  from s1 have "name s1 = Str ''Sirius''" and "mag s1 = Finite (- 146 / 100)"
    by (simp_all add: star_of_row_def field_is_def eval_row eval_float)
  moreover from s2 have "name s2 = Str ''Vega''" and "mag s2 = Finite (3 / 100)"
    by (simp_all add: star_of_row_def field_is_def eval_row eval_float)
  ultimately show ?thesis using res stars header by auto
qed

lemma blank_row_no_text: "DictReader_row fieldnames [] (Some key) \<noteq> Some (Str s)"
  by (cases fieldnames) (auto simp: DictReader_row_def Let_def dict_zip_def fold_restval)

lemma make_star_unparseable:
  assumes "key \<in> set numeric_columns" and "unparseable fl d key s"
  shows "\<exists>e. make_star fl d = Inl e"
  using assms
  by (auto simp: make_star_def and_then_def subscript_def py_float_def unparseable_def
                 numeric_columns_def
           split: option.splits pyval.splits sum.splits)

lemma make_star_full_row:
  assumes "\<forall>key\<in>set required_columns. \<exists>t. d (Some key) = Some (Str t)"
      and "make_star fl d = Inl e"
  shows "\<exists>key\<in>set numeric_columns. \<exists>s. unparseable fl d key s \<and> e = ValueError s"
  using assms
  by (auto simp: make_star_def and_then_def subscript_def py_float_def unparseable_def
                 numeric_columns_def required_columns_def
           split: option.splits pyval.splits sum.splits)

text \<open>
  Against claim C2 as stated: the third line of the file has the text \<^verbatim>\<open>abc\<close> in
  ra_deg, but the line before it has no value for ra_deg at all, and the load ends there
  with a TypeError, not a ValueError.
\<close>

theorem read_stars_bad_field_counterexample:
  "unparseable decimal_float
     (DictReader_row [''name'', ''ra_deg'', ''dec_deg'', ''mag''] [''B'', ''abc'', ''1'', ''2''])
     ''ra_deg'' ''abc''
   \<and> fst (read_stars decimal_float ''stars.csv''
             (world_with ''stars.csv''
                [[''name'', ''ra_deg'', ''dec_deg'', ''mag''],
                 [''A''],
                 [''B'', ''abc'', ''1'', ''2'']]))
       = Inl (TypeError ''NoneType'')"
  by (simp add: unparseable_def read_stars_def load_rows_def world_with_def eval_row eval_float)

lemma make_star_reaches_unparseable:
  assumes "d (Some ''name'') = Some n" and "reaches_unparseable fl d s"
  shows "make_star fl d = Inl (ValueError s)"
  using assms
  by (auto simp: make_star_def and_then_def subscript_def py_float_def reaches_unparseable_def
                 parseable_def unparseable_def
           split: option.splits pyval.splits sum.splits)

lemma reaches_unparseable_field:
  "reaches_unparseable fl d s
     \<Longrightarrow> \<exists>key\<in>set numeric_columns. unparseable fl d key s"
  by (auto simp: reaches_unparseable_def numeric_columns_def)

text \<open>
  Claim C2, amended. For every CSV input containing a row whose ra_deg, dec_deg or mag
  field holds a text that \<^verbatim>\<open>float\<close> does not convert, \<^verbatim>\<open>read_stars\<close> fails, the load
  aborts and no list of stars is returned. The error is a ValueError carrying that text
  (its message quotes the text; it names neither the row nor the column) whenever this
  field is where the load first fails: the header has the name column, every earlier
  row is blank or has parseable text in the three numeric columns, and the numeric
  columns converted before it in its row (in the order ra_deg, dec_deg, mag) hold
  parseable text.
\<close>

theorem read_stars_bad_field:
  assumes opened: "csv_files w path = Some (fieldnames # rows)"
      and bad: "\<exists>r\<in>set rows. \<exists>key\<in>set numeric_columns. \<exists>s.
                  unparseable fl (DictReader_row fieldnames r) key s"
  shows "(\<exists>e. fst (read_stars fl path w) = Inl e)
         \<and> (\<forall>pre r post s.
               rows = pre @ r # post
               \<and> ''name'' \<in> set fieldnames
               \<and> (\<forall>p\<in>set pre. p = [] \<or> (\<forall>key\<in>set numeric_columns.
                      parseable fl (DictReader_row fieldnames p) key))
               \<and> reaches_unparseable fl (DictReader_row fieldnames r) s
             \<longrightarrow> fst (read_stars fl path w) = Inl (ValueError s)
                 \<and> fl s = None
                 \<and> (\<exists>key\<in>set numeric_columns.
                       DictReader_row fieldnames r (Some key) = Some (Str s)))"
proof -
  let ?d = "DictReader_row fieldnames"
  from bad obtain r key s where r: "r \<in> set rows" and key: "key \<in> set numeric_columns"
    and s: "unparseable fl (?d r) key s" by blast
  from s have "r \<noteq> []" using blank_row_no_text by (auto simp: unparseable_def)
  moreover from make_star_unparseable [OF key s] have "\<exists>e. make_star fl (?d r) = Inl e" .
  ultimately have "\<exists>r\<in>set rows. r \<noteq> [] \<and> (\<exists>e. make_star fl (?d r) = Inl e)"
    using r by blast
  from read_rows_fails [OF this] obtain e where "read_rows fl fieldnames rows [] = Inl e"
    by blast
  then have fails: "\<exists>e. fst (read_stars fl path w) = Inl e"
    by (simp add: read_stars_file [OF opened])
  have first: "fst (read_stars fl path w) = Inl (ValueError s')
        \<and> fl s' = None
        \<and> (\<exists>key\<in>set numeric_columns. ?d r' (Some key) = Some (Str s'))"
    if split: "rows = pre @ r' # post" and named: "''name'' \<in> set fieldnames"
    and earlier: "\<forall>p\<in>set pre. p = [] \<or> (\<forall>key\<in>set numeric_columns. parseable fl (?d p) key)"
    and reach: "reaches_unparseable fl (?d r') s'"
    for pre r' post s'
  proof -
    have name_of: "\<exists>n. ?d p (Some ''name'') = Some n" for p
      using named DictReader_row_absent [of fieldnames p "''name''"] by auto
    have loads: "\<forall>p\<in>set pre. p = [] \<or> (\<exists>st. make_star fl (?d p) = Inr st)"
    proof
      fix p assume "p \<in> set pre"
      with earlier have "p = [] \<or> (\<forall>key\<in>set numeric_columns. parseable fl (?d p) key)"
        by blast
      then show "p = [] \<or> (\<exists>st. make_star fl (?d p) = Inr st)"
        using name_of [of p] make_star_parseable [of "?d p" _ fl] by blast
    qed
    from reaches_unparseable_field [OF reach] obtain k where k: "k \<in> set numeric_columns"
      and u: "unparseable fl (?d r') k s'" by blast
    from u have nonblank: "r' \<noteq> []" using blank_row_no_text by (auto simp: unparseable_def)
    have raised: "make_star fl (?d r') = Inl (ValueError s')"
      using name_of [of r'] make_star_reaches_unparseable [OF _ reach] by blast
    have "read_rows fl fieldnames (pre @ r' # post) [] = Inl (ValueError s')"
      by (rule read_rows_first_failure [OF loads nonblank raised])
    then have "fst (read_stars fl path w) = Inl (ValueError s')"
      using opened split by (simp add: read_stars_file)
    with k u show ?thesis by (auto simp: unparseable_def)
  qed
  from fails first show ?thesis by blast
qed

theorem read_stars_bad_field_witness:
  "(\<exists>r\<in>set [[''Vega'', ''279.23'', ''38.78'', ''0.03''], [], [''B'', ''1'', ''abc'', ''2''], [''C'']].
      \<exists>key\<in>set numeric_columns. \<exists>s.
        unparseable decimal_float
          (DictReader_row [''name'', ''ra_deg'', ''dec_deg'', ''mag'', ''notes''] r) key s)
   \<and> reaches_unparseable decimal_float
        (DictReader_row [''name'', ''ra_deg'', ''dec_deg'', ''mag'', ''notes'']
           [''B'', ''1'', ''abc'', ''2'']) ''abc''
   \<and> fst (read_stars decimal_float ''stars.csv''
             (world_with ''stars.csv''
                [[''name'', ''ra_deg'', ''dec_deg'', ''mag'', ''notes''],
                 [''Vega'', ''279.23'', ''38.78'', ''0.03''],
                 [],
                 [''B'', ''1'', ''abc'', ''2''],
                 [''C'']]))
       = Inl (ValueError ''abc'')"
proof -
  let ?header = "[''name'', ''ra_deg'', ''dec_deg'', ''mag'', ''notes'']"
  let ?pre = "[[''Vega'', ''279.23'', ''38.78'', ''0.03''], []]"
  let ?r = "[''B'', ''1'', ''abc'', ''2'']"
  let ?post = "[[''C'']]"
  let ?rows = "[[''Vega'', ''279.23'', ''38.78'', ''0.03''], [], ?r, [''C'']]"
  let ?w = "world_with ''stars.csv'' (?header # ?rows)"
  have opened: "csv_files ?w ''stars.csv'' = Some (?header # ?rows)"
    by (simp add: world_with_def)
  have reach: "reaches_unparseable decimal_float (DictReader_row ?header ?r) ''abc''"
    by (simp add: reaches_unparseable_def parseable_def unparseable_def eval_row eval_float)
  have "unparseable decimal_float (DictReader_row ?header ?r) ''dec_deg'' ''abc''"
    by (simp add: unparseable_def eval_row eval_float)
  then have bad: "\<exists>r\<in>set ?rows. \<exists>key\<in>set numeric_columns. \<exists>s.
                    unparseable decimal_float (DictReader_row ?header r) key s"
    by (simp add: numeric_columns_def) blast
  have split: "?rows = ?pre @ ?r # ?post" by simp
  have named: "''name'' \<in> set ?header" by simp
  have earlier: "\<forall>p\<in>set ?pre. p = [] \<or> (\<forall>key\<in>set numeric_columns.
                   parseable decimal_float (DictReader_row ?header p) key)"
    by (simp add: numeric_columns_def parseable_def eval_row eval_float)
  from read_stars_bad_field [OF opened bad] split named earlier reach
  have "fst (read_stars decimal_float ''stars.csv'' ?w) = Inl (ValueError ''abc'')"
    by blast
  with bad reach show ?thesis by blast
qed

lemma make_star_reaches_None:
  assumes "d (Some ''name'') = Some n" and "reaches_None fl d"
  shows "make_star fl d = Inl (TypeError ''NoneType'')"
  using assms
  by (auto simp: make_star_def and_then_def subscript_def py_float_def reaches_None_def
                 parseable_def
           split: option.splits pyval.splits sum.splits)

lemma reaches_None_value: "reaches_None fl d \<Longrightarrow> \<exists>key. d (Some key) = Some PyNone"
  by (auto simp: reaches_None_def)

text \<open>
  Against claim C10 as stated: the header contains the required columns and a fifth
  one, and the data row has four values, fewer than the header has columns; the row
  loads without error.
\<close>

theorem read_stars_short_row_counterexample:
  "set required_columns \<subseteq> set [''name'', ''ra_deg'', ''dec_deg'', ''mag'', ''notes'']
   \<and> length [''Vega'', ''279.23'', ''38.78'', ''0.03'']
       < length [''name'', ''ra_deg'', ''dec_deg'', ''mag'', ''notes'']
   \<and> fst (read_stars decimal_float ''stars.csv''
             (world_with ''stars.csv''
                [[''name'', ''ra_deg'', ''dec_deg'', ''mag'', ''notes''],
                 [''Vega'', ''279.23'', ''38.78'', ''0.03'']]))
       = Inr [\<lparr>name = Str ''Vega'', ra_deg = Finite (27923 / 100), dec_deg = Finite (3878 / 100),
              mag = Finite (3 / 100)\<rparr>]"
  by (simp add: required_columns_def read_stars_def load_rows_def world_with_def
                eval_row eval_float)

text \<open>
  Claim C10, amended. For every CSV file whose header contains all required columns: if
  a non-blank data row gives no value for a numeric column (the column reads as
  \<^verbatim>\<open>None\<close>), the numeric columns converted before it in that row (in the order
  ra_deg, dec_deg, mag) hold parseable text, and every earlier row is blank or has
  parseable text in the three numeric columns, then \<^verbatim>\<open>read_stars\<close> fails with a
  TypeError, not with a ValueError, no star list is returned, and the row has fewer
  values than the header has columns.
\<close>

theorem read_stars_short_row:
  assumes opened: "csv_files w path = Some (fieldnames # pre @ r # post)"
      and header: "set required_columns \<subseteq> set fieldnames"
      and earlier: "\<forall>p\<in>set pre. p = [] \<or> (\<forall>key\<in>set numeric_columns.
                      parseable fl (DictReader_row fieldnames p) key)"
      and nonblank: "r \<noteq> []"
      and short: "reaches_None fl (DictReader_row fieldnames r)"
  shows "fst (read_stars fl path w) = Inl (TypeError ''NoneType'')
         \<and> (\<forall>s. fst (read_stars fl path w) \<noteq> Inl (ValueError s))
         \<and> length r < length fieldnames"
proof -
  let ?d = "DictReader_row fieldnames"
  have named: "''name'' \<in> set fieldnames"
    using header by (simp add: required_columns_def)
  have name_of: "\<exists>n. ?d p (Some ''name'') = Some n" for p
    using named DictReader_row_absent [of fieldnames p "''name''"] by auto
  have loads: "\<forall>p\<in>set pre. p = [] \<or> (\<exists>s. make_star fl (?d p) = Inr s)"
  proof
    fix p assume "p \<in> set pre"
    with earlier have "p = [] \<or> (\<forall>key\<in>set numeric_columns. parseable fl (?d p) key)"
      by blast
    then show "p = [] \<or> (\<exists>s. make_star fl (?d p) = Inr s)"
      using name_of [of p] make_star_parseable [of "?d p" _ fl] by blast
  qed
  have raised: "make_star fl (?d r) = Inl (TypeError ''NoneType'')"
    using name_of [of r] make_star_reaches_None [OF _ short] by blast
  have "read_rows fl fieldnames (pre @ r # post) [] = Inl (TypeError ''NoneType'')"
    by (rule read_rows_first_failure [OF loads nonblank raised])
  then have res: "fst (read_stars fl path w) = Inl (TypeError ''NoneType'')"
    by (simp add: read_stars_file [OF opened])
  have "length r < length fieldnames"
  proof (rule ccontr)
    assume "\<not> length r < length fieldnames"
    then have len: "length fieldnames \<le> length r" by simp
    from reaches_None_value [OF short] obtain key where k: "?d r (Some key) = Some PyNone"
      by blast
    then have "key \<in> set fieldnames"
      using DictReader_row_absent [of fieldnames r key] by auto
    from DictReader_row_full [OF len this] k show False by auto
  qed
  with res show ?thesis by simp
qed

theorem read_stars_short_row_witness:
  "set required_columns \<subseteq> set [''name'', ''ra_deg'', ''dec_deg'', ''mag'']
   \<and> reaches_None decimal_float
        (DictReader_row [''name'', ''ra_deg'', ''dec_deg'', ''mag''] [''A'', ''1''])
   \<and> fst (read_stars decimal_float ''stars.csv''
             (world_with ''stars.csv''
                [[''name'', ''ra_deg'', ''dec_deg'', ''mag''],
                 [''Vega'', ''279.23'', ''38.78'', ''0.03''],
                 [],
                 [''A'', ''1''],
                 [''B'', ''abc'', ''1'', ''2'']]))
       = Inl (TypeError ''NoneType'')"
proof -
  let ?header = "[''name'', ''ra_deg'', ''dec_deg'', ''mag'']"
  let ?pre = "[[''Vega'', ''279.23'', ''38.78'', ''0.03''], []]"
  let ?r = "[''A'', ''1'']"
  let ?post = "[[''B'', ''abc'', ''1'', ''2'']]"
  let ?w = "world_with ''stars.csv'' (?header # ?pre @ ?r # ?post)"
  have opened: "csv_files ?w ''stars.csv'' = Some (?header # ?pre @ ?r # ?post)"
    by (simp add: world_with_def)
  have header: "set required_columns \<subseteq> set ?header"
    by (simp add: required_columns_def)
  have earlier: "\<forall>p\<in>set ?pre. p = [] \<or> (\<forall>key\<in>set numeric_columns.
                   parseable decimal_float (DictReader_row ?header p) key)"
    by (simp add: numeric_columns_def parseable_def eval_row eval_float)
  have nonblank: "?r \<noteq> []" by simp
  have short: "reaches_None decimal_float (DictReader_row ?header ?r)"
    by (simp add: reaches_None_def parseable_def eval_row eval_float)
  from read_stars_short_row [OF opened header earlier nonblank short] header short
  show ?thesis by simp
qed

lemma make_star_missing_key:
  assumes "key \<in> set required_columns" and "d (Some key) = None"
  shows "\<exists>e. make_star fl d = Inl e"
  using assms
  by (auto simp: make_star_def and_then_def subscript_def py_float_def required_columns_def
           split: option.splits pyval.splits sum.splits)

lemma make_star_KeyError:
  assumes "key \<in> set required_columns" and "d (Some key) = None"
      and "\<forall>k\<in>set numeric_columns. d (Some k) \<noteq> None \<longrightarrow> parseable fl d k"
  shows "\<exists>k\<in>set required_columns. d (Some k) = None \<and> make_star fl d = Inl (KeyError k)"
  using assms
  by (auto simp: make_star_def and_then_def subscript_def py_float_def required_columns_def
                 numeric_columns_def parseable_def
           split: option.splits pyval.splits sum.splits)

lemma read_rows_skips_blank:
  "read_rows fl fieldnames rows acc
     = read_rows fl fieldnames (dropWhile (\<lambda>r. r = []) rows) acc"
  by (induction rows arbitrary: acc) auto

subsection \<open>A failed load ends \<^verbatim>\<open>main\<close>\<close>

lemma main_load_failure:
  assumes "parse_args argv = Inr ns" and "fst (read_stars fl (arg_data ns) w) = Inl e"
  shows "main fl argv w = (Inl e, w\<lparr>trace := trace w @ [OpenCsv (arg_data ns)]\<rparr>)"
proof -
  have "read_stars fl (arg_data ns) w
          = (Inl e, w\<lparr>trace := trace w @ [OpenCsv (arg_data ns)]\<rparr>)"
    using assms(2) read_stars_trace [of fl "arg_data ns" w]
    by (cases "read_stars fl (arg_data ns) w") simp
  with assms(1) show ?thesis by (simp add: main_def)
qed

text \<open>
  Against claim C3 as stated: the header lacks the column mag and the file has no data
  row; \<^verbatim>\<open>read_stars\<close> returns the empty list and raises nothing.
\<close>

theorem read_stars_missing_column_counterexample:
  "\<not> set required_columns \<subseteq> set [''name'', ''ra_deg'', ''dec_deg'']
   \<and> fst (read_stars decimal_float ''stars.csv''
             (world_with ''stars.csv'' [[''name'', ''ra_deg'', ''dec_deg'']]))
       = Inr []"
  by (simp add: required_columns_def read_stars_def load_rows_def world_with_def)

text \<open>
  Claim C3, amended. For every CSV file whose header row is missing at least one of the
  required columns and that has a non-blank data row, \<^verbatim>\<open>read_stars\<close> fails with the
  exception the first non-blank data row raises and returns no list; \<^verbatim>\<open>main\<close> then ends
  with that exception having only opened the catalogue: no figure is made and nothing
  is saved. The exception is a KeyError naming a missing required column when the
  numeric columns the header does have hold parseable text in that row.
\<close>

theorem read_stars_missing_column:
  assumes opened: "csv_files w path = Some (fieldnames # rows)"
      and missing: "\<not> set required_columns \<subseteq> set fieldnames"
      and first_row: "dropWhile (\<lambda>r. r = []) rows = r # rest"
  shows "\<exists>e. fst (read_stars fl path w) = Inl e
           \<and> make_star fl (DictReader_row fieldnames r) = Inl e
           \<and> (\<forall>argv ns. parse_args argv = Inr ns \<and> arg_data ns = path
                 \<longrightarrow> main fl argv w = (Inl e, w\<lparr>trace := trace w @ [OpenCsv path]\<rparr>))
           \<and> ((\<forall>key\<in>set numeric_columns. key \<in> set fieldnames
                   \<longrightarrow> parseable fl (DictReader_row fieldnames r) key)
                \<longrightarrow> (\<exists>key\<in>set required_columns. key \<notin> set fieldnames \<and> e = KeyError key))"
proof -
  let ?d = "DictReader_row fieldnames r"
  from missing obtain key where key: "key \<in> set required_columns" "key \<notin> set fieldnames"
    by blast
  then have absent: "?d (Some key) = None" by (simp add: DictReader_row_absent)
  from make_star_missing_key [where d = "?d" and key = key and fl = fl, OF key(1) absent] obtain e where e: "make_star fl ?d = Inl e"
    by blast
  have "r \<noteq> []"
    using first_row hd_dropWhile [of "\<lambda>r. r = []" rows] by auto
  then have "read_rows fl fieldnames (r # rest) [] = Inl e"
    using e by simp
  then have "read_rows fl fieldnames rows [] = Inl e"
    using read_rows_skips_blank [of fl fieldnames rows "[]"] first_row by simp
  then have res: "fst (read_stars fl path w) = Inl e"
    by (simp add: read_stars_file [OF opened])
  have no_render: "main fl argv w = (Inl e, w\<lparr>trace := trace w @ [OpenCsv path]\<rparr>)"
    if "parse_args argv = Inr ns \<and> arg_data ns = path" for argv ns
    using that main_load_failure [of argv ns fl w e] res by auto
  have named: "\<exists>key\<in>set required_columns. key \<notin> set fieldnames \<and> e = KeyError key"
    if p: "\<forall>key\<in>set numeric_columns. key \<in> set fieldnames \<longrightarrow> parseable fl ?d key"
  proof -
    have "\<forall>k\<in>set numeric_columns. ?d (Some k) \<noteq> None \<longrightarrow> parseable fl ?d k"
      using p by (simp add: DictReader_row_absent)
    from make_star_KeyError [where d = "?d" and key = key and fl = fl, OF key(1) absent this] e show ?thesis
      by (auto simp: DictReader_row_absent)
  qed
  from res e no_render named show ?thesis by blast
qed

theorem read_stars_missing_column_witness:
  "\<not> set required_columns \<subseteq> set [''name'', ''ra_deg'', ''dec_deg'']
   \<and> parse_args [OptData ''stars.csv''] = Inr (defaults\<lparr>arg_data := ''stars.csv''\<rparr>)
   \<and> fst (read_stars decimal_float ''stars.csv''
             (world_with ''stars.csv''
                [[''name'', ''ra_deg'', ''dec_deg''], [], [''Vega'', ''279.23'', ''38.78'']]))
       = Inl (KeyError ''mag'')
   \<and> fst (main decimal_float [OptData ''stars.csv'']
             (world_with ''stars.csv''
                [[''name'', ''ra_deg'', ''dec_deg''], [], [''Vega'', ''279.23'', ''38.78'']]))
       = Inl (KeyError ''mag'')
   \<and> figures (snd (main decimal_float [OptData ''stars.csv'']
             (world_with ''stars.csv''
                [[''name'', ''ra_deg'', ''dec_deg''], [], [''Vega'', ''279.23'', ''38.78'']])))
       = []
   \<and> trace (snd (main decimal_float [OptData ''stars.csv'']
             (world_with ''stars.csv''
                [[''name'', ''ra_deg'', ''dec_deg''], [], [''Vega'', ''279.23'', ''38.78'']])))
       = [OpenCsv ''stars.csv'']"
proof -
  let ?header = "[''name'', ''ra_deg'', ''dec_deg'']"
  let ?r = "[''Vega'', ''279.23'', ''38.78'']"
  let ?rows = "[[], ?r]"
  let ?w = "world_with ''stars.csv'' (?header # ?rows)"
  let ?argv = "[OptData ''stars.csv'']"
  have opened: "csv_files ?w ''stars.csv'' = Some (?header # ?rows)"
    by (simp add: world_with_def)
  have missing: "\<not> set required_columns \<subseteq> set ?header"
    by (simp add: required_columns_def)
  have first_row: "dropWhile (\<lambda>r. r = []) ?rows = ?r # []" by simp
  have parsed: "parse_args ?argv = Inr (defaults\<lparr>arg_data := ''stars.csv''\<rparr>)"
    by (simp add: parse_args_def)
  have numerics: "\<forall>key\<in>set numeric_columns. key \<in> set ?header
                    \<longrightarrow> parseable decimal_float (DictReader_row ?header ?r) key"
    by (simp add: numeric_columns_def parseable_def eval_row eval_float)
  from read_stars_missing_column [OF opened missing first_row, of decimal_float]
  obtain e where res: "fst (read_stars decimal_float ''stars.csv'' ?w) = Inl e"
    and m: "\<forall>argv ns. parse_args argv = Inr ns \<and> arg_data ns = ''stars.csv''
              \<longrightarrow> main decimal_float argv ?w
                    = (Inl e, ?w\<lparr>trace := trace ?w @ [OpenCsv ''stars.csv'']\<rparr>)"
    and k: "(\<forall>key\<in>set numeric_columns. key \<in> set ?header
                \<longrightarrow> parseable decimal_float (DictReader_row ?header ?r) key)
            \<longrightarrow> (\<exists>key\<in>set required_columns. key \<notin> set ?header \<and> e = KeyError key)"
    by blast
  from k numerics have "\<exists>key\<in>set required_columns. key \<notin> set ?header \<and> e = KeyError key"
    by blast
  then have e: "e = KeyError ''mag''" by (auto simp: required_columns_def)
  from m parsed have "main decimal_float ?argv ?w
      = (Inl e, ?w\<lparr>trace := trace ?w @ [OpenCsv ''stars.csv'']\<rparr>)"
    by (simp add: defaults_def)
  then have "fst (main decimal_float ?argv ?w) = Inl e"
    and "figures (snd (main decimal_float ?argv ?w)) = []"
    and "trace (snd (main decimal_float ?argv ?w)) = [OpenCsv ''stars.csv'']"
    by (simp_all add: world_with_def)
  with res e missing parsed show ?thesis by simp
qed

section \<open>Properties of \<^verbatim>\<open>plot_sky\<close>\<close>

subsection \<open>The number of a new figure is not in use\<close>

lemma fold_max_ge: "a \<le> fold max xs (a::nat)"
proof (induction xs arbitrary: a)
  case Nil
  then show ?case by simp
next
  case (Cons x xs)
  have "a \<le> max x a" by simp
  also have "max x a \<le> fold max xs (max x a)" by (rule Cons.IH)
  finally show ?case by simp
qed

lemma fold_max_upper: "x \<in> set xs \<Longrightarrow> x \<le> fold max xs (a::nat)"
proof (induction xs arbitrary: a)
  case Nil
  then show ?case by simp
next
  case (Cons y ys)
  show ?case
  proof (cases "x = y")
    case True
    have "x \<le> max y a" using True by simp
    also have "max y a \<le> fold max ys (max y a)" by (rule fold_max_ge)
    finally show ?thesis by simp
  next
    case False
    with Cons.prems have "x \<in> set ys" by simp
    from Cons.IH [OF this] show ?thesis by simp
  qed
qed

lemma fresh_figure: "Suc (fold max figs 0) \<notin> set figs"
proof
  assume "Suc (fold max figs 0) \<in> set figs"
  from fold_max_upper [OF this, of 0] show False by simp
qed

subsection \<open>The ways \<^verbatim>\<open>plot_sky\<close> ends\<close>

lemma plot_sky_sizes_failed:
  assumes "marker_sizes stars = Inl e"
  shows "plot_sky stars theme_name show_labels path w =
           (Inl e,
            w\<lparr>figures := figures w @ [Suc (fold max (figures w) 0)],
              trace := trace w @ [NewFigure (Suc (fold max (figures w) 0))]\<rparr>)"
  using assms theme_style_total [of theme_name]
  by (auto simp: plot_sky_def subplots_def Let_def)

lemma plot_sky_rejected:
  assumes "marker_sizes stars = Inr sizes" and "theme_style theme_name = Inr st"
      and "rejects w (draw stars sizes st show_labels) = Some err"
  shows "plot_sky stars theme_name show_labels path w =
           (Inl (MatplotlibError err),
            w\<lparr>figures := figures w @ [Suc (fold max (figures w) 0)],
              trace := trace w @ [NewFigure (Suc (fold max (figures w) 0)),
                                  SaveFig (Suc (fold max (figures w) 0)) path]\<rparr>)"
  using assms by (simp add: plot_sky_def subplots_def savefig_def Let_def)

lemma plot_sky_save_failed:
  assumes "marker_sizes stars = Inr sizes" and "theme_style theme_name = Inr st"
      and "rejects w (draw stars sizes st show_labels) = None" and "\<not> writable w path"
  shows "plot_sky stars theme_name show_labels path w =
           (Inl (OSError path),
            w\<lparr>figures := figures w @ [Suc (fold max (figures w) 0)],
              trace := trace w @ [NewFigure (Suc (fold max (figures w) 0)),
                                  SaveFig (Suc (fold max (figures w) 0)) path]\<rparr>)"
  using assms by (simp add: plot_sky_def subplots_def savefig_def Let_def)

lemma plot_sky_saved:
  assumes "marker_sizes stars = Inr sizes" and "theme_style theme_name = Inr st"
      and "rejects w (draw stars sizes st show_labels) = None" and "writable w path"
  shows "plot_sky stars theme_name show_labels path w =
           (Inr (),
            w\<lparr>images := (images w)(path \<mapsto>
                  \<lparr>picture = draw stars sizes st show_labels, dpi = 150, bbox_inches = ''tight''\<rparr>),
              trace := trace w @ [NewFigure (Suc (fold max (figures w) 0)),
                                  SaveFig (Suc (fold max (figures w) 0)) path,
                                  CloseFigure (Suc (fold max (figures w) 0))]\<rparr>)"
  using assms fresh_figure [of "figures w"]
  by (simp add: plot_sky_def subplots_def savefig_def close_figure_def Let_def)

text \<open>
  The four cases cover every run of \<^verbatim>\<open>plot_sky\<close>: it returns normally only in the last
  one, with the figures that were open before; in the three others the new figure is
  still open.
\<close>

lemma plot_sky_open_figures:
  "(fst (plot_sky stars theme_name show_labels path w) = Inr ()
      \<and> figures (snd (plot_sky stars theme_name show_labels path w)) = figures w)
   \<or> ((\<exists>e. fst (plot_sky stars theme_name show_labels path w) = Inl e)
      \<and> figures (snd (plot_sky stars theme_name show_labels path w))
          = figures w @ [Suc (fold max (figures w) 0)])"
proof -
  obtain st where st: "theme_style theme_name = Inr st"
    using theme_style_total by blast
  show ?thesis
  proof (cases "marker_sizes stars")
    case (Inl e)
    from plot_sky_sizes_failed [OF this] show ?thesis by simp
  next
    case (Inr sizes)
    show ?thesis
    proof (cases "rejects w (draw stars sizes st show_labels)")
      case (Some err)
      from plot_sky_rejected [where path = path, OF Inr st this] show ?thesis by simp
    next
      case None
      show ?thesis
      proof (cases "writable w path")
        case True
        from plot_sky_saved [OF Inr st None True] show ?thesis by simp
      next
        case False
        from plot_sky_save_failed [OF Inr st None False] show ?thesis by simp
      qed
    qed
  qed
qed


text \<open>
  Claim C9. The figure acquired on line 52 is released only on line 72, after
  \<^verbatim>\<open>savefig\<close> has returned. Evaluated on runs that start with no figure open: when the
  image cannot be written, and when a marker size overflows, \<^verbatim>\<open>plot_sky\<close> raises and
  figure 1 is still open; on the normal path no figure is left open.
\<close>

theorem plot_sky_leaks_figure:
  "figures (world_with ''stars.csv'' []) = []
   \<and> fst (plot_sky [] ''dark'' False ''no_such_dir/sky.png'' (world_with ''stars.csv'' []))
       = Inl (OSError ''no_such_dir/sky.png'')
   \<and> figures (snd (plot_sky [] ''dark'' False ''no_such_dir/sky.png''
                     (world_with ''stars.csv'' []))) = [1]
   \<and> fst (plot_sky [\<lparr>name = Str ''X'', ra_deg = Finite 0, dec_deg = Finite 0,
                       mag = Finite (- (10 ^ 200))\<rparr>]
             ''dark'' False ''night_sky.png'' (world_with ''stars.csv'' []))
       = Inl OverflowError
   \<and> figures (snd (plot_sky [\<lparr>name = Str ''X'', ra_deg = Finite 0, dec_deg = Finite 0,
                                mag = Finite (- (10 ^ 200))\<rparr>]
                     ''dark'' False ''night_sky.png'' (world_with ''stars.csv'' []))) = [1]
   \<and> fst (plot_sky [] ''dark'' False ''night_sky.png'' (world_with ''stars.csv'' [])) = Inr ()
   \<and> figures (snd (plot_sky [] ''dark'' False ''night_sky.png''
                     (world_with ''stars.csv'' []))) = []"
proof -
  let ?w = "world_with ''stars.csv'' []"
  let ?st = "\<lparr>bg = ''black'', fg = ''white''\<rparr>"
  let ?star = "\<lparr>name = Str ''X'', ra_deg = Finite 0, dec_deg = Finite 0,
                mag = Finite (- (10 ^ 200))\<rparr>"
  have none: "figures ?w = []" by (simp add: world_with_def)
  have draws: "rejects ?w (draw [] [] ?st False) = None" by (simp add: world_with_def)
  have bad: "\<not> writable ?w ''no_such_dir/sky.png''" by (simp add: world_with_def)
  have ok: "writable ?w ''night_sky.png''" by (simp add: world_with_def)
  have empty: "marker_sizes [] = Inr []" by simp
  have "marker_size (mag ?star) = Inl OverflowError"
    using marker_size_overflow_example by simp
  then have over: "marker_sizes [?star] = Inl OverflowError" by (simp add: and_then_def)
  from plot_sky_save_failed [OF empty theme_style_dark draws bad] none
  have a: "fst (plot_sky [] ''dark'' False ''no_such_dir/sky.png'' ?w)
             = Inl (OSError ''no_such_dir/sky.png'')
           \<and> figures (snd (plot_sky [] ''dark'' False ''no_such_dir/sky.png'' ?w)) = [1]"
    by simp
  from plot_sky_sizes_failed [OF over, of "''dark''" False "''night_sky.png''" ?w] none
  have b: "fst (plot_sky [?star] ''dark'' False ''night_sky.png'' ?w) = Inl OverflowError
           \<and> figures (snd (plot_sky [?star] ''dark'' False ''night_sky.png'' ?w)) = [1]"
    by simp
  from plot_sky_saved [OF empty theme_style_dark draws ok] none
  have c: "fst (plot_sky [] ''dark'' False ''night_sky.png'' ?w) = Inr ()
           \<and> figures (snd (plot_sky [] ''dark'' False ''night_sky.png'' ?w)) = []"
    by simp
  from none a b c show ?thesis by blast
qed




section \<open>Properties of the whole program\<close>

subsection \<open>The exceptions of the loader\<close>




subsection \<open>From the command line to the exit status\<close>








subsection \<open>The choices of \<^verbatim>\<open>--theme\<close>\<close>

lemma consume_unknown_theme:
  assumes "OptTheme v \<in> set argv" and "v \<notin> set theme_choices"
  shows "\<exists>n msg. consume argv ns extras = Inl (SystemExit n msg)
           \<and> (OptHelp \<notin> set (takeWhile (\<lambda>i. i \<noteq> OptTheme v) argv) \<longrightarrow> n = 2)"
  using assms
proof (induction argv arbitrary: ns extras)
  case Nil
  then show ?case by simp
next
  case (Cons item argv)
  show ?case
  proof (cases "item = OptTheme v")
    case True
    with Cons.prems show ?thesis by simp
  next
    case False
    with Cons.prems have tail: "OptTheme v \<in> set argv" by simp
    note IH = Cons.IH [OF tail Cons.prems(2)]
    show ?thesis
    proof (cases item)
      case (OptData p)
      with IH [of "ns\<lparr>arg_data := p\<rparr>" extras] False show ?thesis by simp
    next
      case (OptTheme u)
      with IH [of "ns\<lparr>arg_theme := u\<rparr>" extras] False show ?thesis by simp
    next
      case OptShowLabels
      with IH [of "ns\<lparr>arg_show_labels := True\<rparr>" extras] False show ?thesis by simp
    next
      case (OptOutput p)
      with IH [of "ns\<lparr>arg_output := p\<rparr>" extras] False show ?thesis by simp
    next
      case OptHelp
      then show ?thesis by simp
    next
      case (MissingValue opt)
      then show ?thesis by simp
    next
      case (Unrecognized x)
      with IH [of ns "extras @ [x]"] False show ?thesis by simp
    qed
  qed
qed

text \<open>
  Against claim C6 as stated: the help option comes before a \<^verbatim>\<open>--theme\<close> with an
  unregistered value; argparse prints the help and exits with status 0 when it meets
  the help option, and the value of \<^verbatim>\<open>--theme\<close> is never checked.
\<close>

theorem unknown_theme_counterexample:
  "''neon'' \<notin> fst ` set THEMES
   \<and> parse_args [OptHelp, OptTheme ''neon''] = Inl (SystemExit 0 ''usage: night_sky.py [-h] ...'')
   \<and> exit_status (run decimal_float [OptHelp, OptTheme ''neon''] (world_with ''stars.csv'' [])) = 0
   \<and> stderr (run decimal_float [OptHelp, OptTheme ''neon''] (world_with ''stars.csv'' [])) = []"
  by (simp add: THEMES_def parse_args_def run_def main_def)

text \<open>
  Claim C6, amended. For every command line supplying a \<^verbatim>\<open>--theme\<close> value that is not a
  key of \<^verbatim>\<open>THEMES\<close>, \<^verbatim>\<open>parse_args\<close> exits and \<^verbatim>\<open>main\<close> goes no further: no file is
  opened and nothing is drawn or saved. Unless the help option stands before that
  \<^verbatim>\<open>--theme\<close> on the command line, the exit is a usage error with status 2 and its
  message on standard error.
\<close>

theorem unknown_theme_rejected:
  assumes given: "OptTheme v \<in> set argv"
      and unregistered: "v \<notin> fst ` set THEMES"
  shows "\<exists>n msg. parse_args argv = Inl (SystemExit n msg)
           \<and> main fl argv w = (Inl (SystemExit n msg), w)
           \<and> exit_status (run fl argv w) = n
           \<and> world_after (run fl argv w) = w
           \<and> (OptHelp \<notin> set (takeWhile (\<lambda>i. i \<noteq> OptTheme v) argv)
                \<longrightarrow> n = 2 \<and> stderr (run fl argv w) = msg)"
proof -
  from unregistered have "v \<notin> set theme_choices"
    by (simp add: theme_choices_def)
  from consume_unknown_theme [OF given this, of defaults "[]"]
  obtain n msg where p: "parse_args argv = Inl (SystemExit n msg)"
    and h: "OptHelp \<notin> set (takeWhile (\<lambda>i. i \<noteq> OptTheme v) argv) \<longrightarrow> n = 2"
    by (auto simp: parse_args_def)
  from p have m: "main fl argv w = (Inl (SystemExit n msg), w)"
    by (simp add: main_def)
  then have "exit_status (run fl argv w) = n" and "world_after (run fl argv w) = w"
    and "n = 2 \<longrightarrow> stderr (run fl argv w) = msg"
    by (simp_all add: run_def)
  with p m h show ?thesis by blast
qed

theorem unknown_theme_rejected_witness:
  "OptTheme ''neon'' \<in> set [OptData ''stars.csv'', OptTheme ''neon'', OptHelp]
   \<and> ''neon'' \<notin> fst ` set THEMES
   \<and> OptHelp \<notin> set (takeWhile (\<lambda>i. i \<noteq> OptTheme ''neon'')
                        [OptData ''stars.csv'', OptTheme ''neon'', OptHelp])
   \<and> exit_status (run decimal_float [OptData ''stars.csv'', OptTheme ''neon'', OptHelp]
                    (world_with ''stars.csv'' [])) = 2
   \<and> trace (world_after (run decimal_float [OptData ''stars.csv'', OptTheme ''neon'', OptHelp]
                            (world_with ''stars.csv'' []))) = []"
proof -
  let ?argv = "[OptData ''stars.csv'', OptTheme ''neon'', OptHelp]"
  let ?w = "world_with ''stars.csv'' []"
  have given: "OptTheme ''neon'' \<in> set ?argv" by simp
  have unregistered: "''neon'' \<notin> fst ` set THEMES" by (simp add: THEMES_def)
  have nohelp: "OptHelp \<notin> set (takeWhile (\<lambda>i. i \<noteq> OptTheme ''neon'') ?argv)" by simp
  from unknown_theme_rejected [OF given unregistered, of decimal_float ?w] nohelp
  have "exit_status (run decimal_float ?argv ?w) = 2"
    and "world_after (run decimal_float ?argv ?w) = ?w"
    by auto
  then show ?thesis using given unregistered nohelp by (simp add: world_with_def)
qed

end
